theory Spec2Isabelle
  imports Complex_Main "HOL-Library.Sublist" "HOL-Library.Multiset" "HOL-Library.AList"
begin

section \<open>JavaScript values used by the tide-prediction service\<close>

text \<open>
  The service (\<^verbatim>\<open>index.js\<close>, in its revision with the four routes \<^verbatim>\<open>/:id\<close>, \<^verbatim>\<open>/all\<close>,
  \<^verbatim>\<open>/closest\<close> and \<^verbatim>\<open>/near\<close>) is written in JavaScript. Numbers are IEEE doubles. With
  the coordinates and distances it handles, the service itself only \<^emph>\<open>compares\<close>
  (\<^verbatim>\<open>lat < -90\<close>, and \<^verbatim>\<open>a.distance - b.distance\<close> inside a sort comparator); the
  arithmetic on them is the libraries'. So a number is modelled by its position on the
  extended real line, plus \<open>NaN\<close>. Comparisons of doubles are exact, and the sign of a
  difference of two doubles is the sign of the exact difference, so nothing the service
  decides depends on rounding.
\<close>

datatype jsnum = NaN | NegInf | Fin real | PosInf

text \<open>JavaScript \<^verbatim>\<open>a < b\<close>: false as soon as one operand is \<open>NaN\<close>.\<close>

fun js_lt :: "jsnum \<Rightarrow> jsnum \<Rightarrow> bool" where
  "js_lt NaN _ = False"
| "js_lt _ NaN = False"
| "js_lt NegInf NegInf = False"
| "js_lt NegInf _ = True"
| "js_lt (Fin x) NegInf = False"
| "js_lt (Fin x) (Fin y) = (x < y)"
| "js_lt (Fin x) PosInf = True"
| "js_lt PosInf _ = False"

text \<open>JavaScript \<^verbatim>\<open>a > b\<close> and \<^verbatim>\<open>a <= b\<close>.\<close>

definition js_gt :: "jsnum \<Rightarrow> jsnum \<Rightarrow> bool" where
  "js_gt a b = js_lt b a"

definition js_le :: "jsnum \<Rightarrow> jsnum \<Rightarrow> bool" where
  "js_le a b = (a \<noteq> NaN \<and> b \<noteq> NaN \<and> \<not> js_lt b a)"

text \<open>JavaScript \<^verbatim>\<open>a - b\<close>. On finite operands the exact difference stands for the rounded
  one: both have the same sign, and only the sign is ever inspected.\<close>

fun js_sub :: "jsnum \<Rightarrow> jsnum \<Rightarrow> jsnum" where
  "js_sub NaN _ = NaN"
| "js_sub _ NaN = NaN"
| "js_sub PosInf PosInf = NaN"
| "js_sub PosInf _ = PosInf"
| "js_sub NegInf NegInf = NaN"
| "js_sub NegInf _ = NegInf"
| "js_sub (Fin x) PosInf = NegInf"
| "js_sub (Fin x) NegInf = PosInf"
| "js_sub (Fin x) (Fin y) = Fin (x - y)"

text \<open>\<^verbatim>\<open>ToNumber\<close> of a property that may be absent: \<^verbatim>\<open>undefined\<close> converts to \<open>NaN\<close>.\<close>

definition to_number :: "jsnum option \<Rightarrow> jsnum" where
  "to_number v = (case v of None \<Rightarrow> NaN | Some n \<Rightarrow> n)"

text \<open>
  \<^verbatim>\<open>Array.prototype.sort(comparefn)\<close>. The language fixes two things: a comparator result
  that is \<open>NaN\<close> counts as \<open>0\<close>, and the sort is stable. With a consistent comparator every
  stable sort returns the same array; the insertion sort below is that array. An element moves
  behind another one only when the comparator is strictly positive.
\<close>

fun js_insert :: "('a \<Rightarrow> 'a \<Rightarrow> jsnum) \<Rightarrow> 'a \<Rightarrow> 'a list \<Rightarrow> 'a list" where
  "js_insert comparefn x [] = [x]"
| "js_insert comparefn x (y # ys) =
     (if js_gt (comparefn x y) (Fin 0) then y # js_insert comparefn x ys else x # y # ys)"

definition js_sort :: "('a \<Rightarrow> 'a \<Rightarrow> jsnum) \<Rightarrow> 'a list \<Rightarrow> 'a list" where
  "js_sort comparefn xs = foldr (js_insert comparefn) xs []"

text \<open>The errors the handlers throw, by constructor, each with its \<^verbatim>\<open>message\<close>.
  \<open>FetchError\<close> is the rejection of a network call or of \<^verbatim>\<open>response.json()\<close>.\<close>

datatype js_error = RangeError string | Error string | TypeError string | FetchError string

fun message :: "js_error \<Rightarrow> string" where
  "message (RangeError m) = m"
| "message (Error m) = m"
| "message (TypeError m) = m"
| "message (FetchError m) = m"

text \<open>Reading property \<open>p\<close> of \<^verbatim>\<open>undefined\<close> (the wording is the engine's).\<close>

definition undefined_property :: "string \<Rightarrow> js_error" where
  "undefined_property p = TypeError (''Cannot read property '' @ [CHR 0x27] @ p @ [CHR 0x27] @ '' of undefined'')"

section \<open>Stations and the directory\<close>

text \<open>
  A station object of the upstream \<^verbatim>\<open>stationList\<close>, with the properties the service reads.
  \<open>lat\<close> and \<open>lon\<close> are kept as upstream sends them and parsed at each use, as the code does.
  \<open>distance\<close> is absent on a directory entry (\<open>None\<close>) and set on the copies that
  \<^verbatim>\<open>getStationsNear\<close> makes.
\<close>

record station =
  stationId :: string
  etidesStnName :: string
  commonName :: string
  lat :: string
  lon :: string
  state :: string
  region :: string
  stationType :: string
  distance :: "jsnum option"

text \<open>
  \<^verbatim>\<open>tideStations\<close> is a JavaScript \<^verbatim>\<open>Map\<close>: it iterates in insertion order, and setting an
  existing key keeps the key's position and replaces its value. That is an association list
  under \<^const>\<open>AList.update\<close>.
\<close>

type_synonym directory = "(string \<times> station) list"

definition new_Map :: "('k \<times> 'v) list \<Rightarrow> ('k \<times> 'v) list" where
  "new_Map entries = foldl (\<lambda>m (k, v). AList.update k v m) [] entries"

definition map_values :: "('k \<times> 'v) list \<Rightarrow> 'v list" where
  "map_values m = map snd m"

definition map_get :: "('k \<times> 'v) list \<Rightarrow> 'k \<Rightarrow> 'v option" where
  "map_get m k = map_of m k"

text \<open>The query parameters of one call to the upstream prediction endpoint, by name.\<close>

record request =
  q_station :: string
  q_begin_date :: string
  q_range :: int
  q_product :: string
  q_application :: string
  q_datum :: string
  q_time_zone :: string
  q_units :: string
  q_interval :: string
  q_format :: string

text \<open>One upstream prediction point \<^verbatim>\<open>{t, type, v}\<close>, and the parsed body of the upstream
  answer: its \<^verbatim>\<open>predictions\<close> property is absent when upstream answers with an error object.\<close>

record raw_prediction =
  p_t :: string
  p_type :: string
  p_v :: string

record tides_json =
  tj_predictions :: "raw_prediction list option"

text \<open>
  The libraries the service calls and the process environment, as parameters: the functions
  are not part of the repository, and every theorem below holds for whatever they compute.
  \<^item> \<open>parseFloat\<close>: the built-in;
  \<^item> \<open>turf_distance\<close>: \<^verbatim>\<open>@turf/distance\<close> on two \<open>[lon, lat]\<close> points;
  \<^item> \<open>geoTz\<close>: \<^verbatim>\<open>geoTz.tz(lat, lon)\<close>;
  \<^item> \<open>moment_tz\<close>, \<open>moment_format\<close>, \<open>moment_unix\<close>: \<^verbatim>\<open>moment.tz(t, 'YYYY-MM-DD HH:mm', tz)\<close>
    and its \<^verbatim>\<open>format()\<close> and \<^verbatim>\<open>unix()\<close>;
  \<^item> \<open>titleCase\<close>: \<^verbatim>\<open>toLaxTitleCase\<close> of the \<^verbatim>\<open>titlecase\<close> package;
  \<^item> \<open>today\<close>: the calendar day of \<^verbatim>\<open>moment()\<close>, as a day number, and \<open>format_YYYYMMDD\<close>;
  \<^item> \<open>appName\<close>: \<^verbatim>\<open>process.env.APPLICATION\<close>;
  \<^item> \<open>fetch\<close>: the network, \<^verbatim>\<open>fetch(url)\<close> followed by \<^verbatim>\<open>response.json()\<close>: the parsed body,
    or the rejection.
\<close>

record ('tz, 'm) env =
  parseFloat :: "string \<Rightarrow> jsnum"
  turf_distance :: "jsnum \<times> jsnum \<Rightarrow> jsnum \<times> jsnum \<Rightarrow> jsnum"
  geoTz :: "jsnum \<Rightarrow> jsnum \<Rightarrow> 'tz"
  moment_tz :: "string \<Rightarrow> 'tz \<Rightarrow> 'm"
  moment_format :: "'m \<Rightarrow> string"
  moment_unix :: "'m \<Rightarrow> int"
  titleCase :: "string \<Rightarrow> string"
  today :: int
  format_YYYYMMDD :: "int \<Rightarrow> string"
  appName :: string
  fetch :: "request \<Rightarrow> js_error + tides_json"

section \<open>Nearest stations\<close>

text \<open>\<^verbatim>\<open>calculateDistance([lat1, lon1], [lat2, lon2])\<close>: parses the four values and hands the
  library two points in \<open>[lon, lat]\<close> order.\<close>

definition calculateDistance ::
  "('tz, 'm) env \<Rightarrow> string \<times> string \<Rightarrow> string \<times> string \<Rightarrow> jsnum" where
  "calculateDistance e p1 p2 =
     (case p1 of (lat1, lon1) \<Rightarrow> case p2 of (lat2, lon2) \<Rightarrow>
        let fromPoint = (parseFloat e lon1, parseFloat e lat1);
            toPoint = (parseFloat e lon2, parseFloat e lat2)
        in turf_distance e fromPoint toPoint)"

text \<open>\<^verbatim>\<open>validateLatitudeAndLongitude\<close>: returns nothing, or throws a \<^verbatim>\<open>RangeError\<close>.\<close>

definition validateLatitudeAndLongitude ::
  "('tz, 'm) env \<Rightarrow> string \<Rightarrow> string \<Rightarrow> js_error + unit" where
  "validateLatitudeAndLongitude e qlat qlon =
     (let flat = parseFloat e qlat; flon = parseFloat e qlon in
      if js_lt flat (Fin (- 90)) \<or> js_gt flat (Fin 90) then Inl (RangeError ''Invalid latitude'')
      else if js_lt flon (Fin (- 180)) \<or> js_gt flon (Fin 180) then Inl (RangeError ''Invalid longitude'')
      else Inr ())"

text \<open>The comparator \<^verbatim>\<open>(a, b) => a.distance - b.distance\<close>.\<close>

definition compareDistance :: "station \<Rightarrow> station \<Rightarrow> jsnum" where
  "compareDistance a b = js_sub (to_number (distance a)) (to_number (distance b))"

text \<open>The copy \<^verbatim>\<open>{...station, distance: calculateDistance([lat, lon], [station.lat, station.lon])}\<close>.\<close>

definition withDistance :: "('tz, 'm) env \<Rightarrow> string \<Rightarrow> string \<Rightarrow> station \<Rightarrow> station" where
  "withDistance e qlat qlon s =
     s\<lparr>distance := Some (calculateDistance e (qlat, qlon) (lat s, lon s))\<rparr>"

text \<open>\<^verbatim>\<open>getStationsNear(lat, lon, limit = 10)\<close>; \<open>limit\<close> is \<open>None\<close> when the caller omits it.
  Both callers pass a natural number or nothing, and \<^verbatim>\<open>slice(0, limit)\<close> is then \<^const>\<open>take\<close>.\<close>

definition getStationsNear ::
  "('tz, 'm) env \<Rightarrow> directory \<Rightarrow> string \<Rightarrow> string \<Rightarrow> nat option \<Rightarrow> js_error + station list" where
  "getStationsNear e tideStations qlat qlon limit =
     (case validateLatitudeAndLongitude e qlat qlon of
        Inl err \<Rightarrow> Inl err
      | Inr _ \<Rightarrow>
          let stationsWithDistances = map (withDistance e qlat qlon) (map_values tideStations)
          in Inr (take (case limit of None \<Rightarrow> 10 | Some n \<Rightarrow> n)
                    (js_sort compareDistance stationsWithDistances)))"

section \<open>Names, stations and predictions as the service publishes them\<close>

text \<open>
  \<^verbatim>\<open>String.prototype.toLowerCase\<close> on station names. The names are ASCII text (the upstream
  directory is upper-case ASCII); a \<^typ>\<open>char\<close> is one byte, and only the letters \<open>A\<close> to \<open>Z\<close>
  change.
\<close>

definition toLowerCase_char :: "char \<Rightarrow> char" where
  "toLowerCase_char c =
     (let n = (of_char c :: nat) in if 65 \<le> n \<and> n \<le> 90 then char_of (n + 32) else c)"

definition toLowerCase :: "string \<Rightarrow> string" where
  "toLowerCase s = map toLowerCase_char s"

text \<open>\<^verbatim>\<open>s.replace(pattern, replacement)\<close> with a string pattern: the first occurrence only.\<close>

fun replace :: "string \<Rightarrow> string \<Rightarrow> string \<Rightarrow> string" where
  "replace pattern replacement [] = (if pattern = [] then replacement else [])"
| "replace pattern replacement (c # cs) =
     (if prefix pattern (c # cs) then replacement @ drop (length pattern) (c # cs)
      else c # replace pattern replacement cs)"

definition formatTideStationName :: "('tz, 'm) env \<Rightarrow> string \<Rightarrow> string" where
  "formatTideStationName e name = titleCase e (replace ''u.s.'' ''U.S.'' (toLowerCase name))"

record 'tz tide_station =
  ts_id :: string
  ts_name :: string
  ts_commonName :: string
  ts_lat :: jsnum
  ts_lon :: jsnum
  ts_state :: string
  ts_region :: string
  ts_timeZone :: 'tz
  ts_distance :: "jsnum option"
  ts_type :: string

definition formatTideStation :: "('tz, 'm) env \<Rightarrow> station \<Rightarrow> 'tz tide_station" where
  "formatTideStation e s =
     (let flat = parseFloat e (lat s); flon = parseFloat e (lon s); tz = geoTz e flat flon in
      \<lparr>ts_id = stationId s,
       ts_name = formatTideStationName e (etidesStnName s),
       ts_commonName = formatTideStationName e (commonName s),
       ts_lat = flat,
       ts_lon = flon,
       ts_state = state s,
       ts_region = region s,
       ts_timeZone = tz,
       ts_distance = distance s,
       ts_type = (if stationType s = ''R'' then ''harmonic'' else ''subordinate'')\<rparr>)"

record prediction =
  pr_type :: string
  pr_height :: jsnum
  pr_time :: string
  pr_unixTime :: int

definition formatTidePrediction :: "('tz, 'm) env \<Rightarrow> raw_prediction \<Rightarrow> station \<Rightarrow> prediction" where
  "formatTidePrediction e p s =
     (let flat = parseFloat e (lat s); flon = parseFloat e (lon s); tz = geoTz e flat flon;
          parsedTime = moment_tz e (p_t p) tz in
      \<lparr>pr_type = (if p_type p = ''H'' then ''high'' else ''low''),
       pr_height = parseFloat e (p_v p),
       pr_time = moment_format e parsedTime,
       pr_unixTime = moment_unix e parsedTime\<rparr>)"

text \<open>The object \<^verbatim>\<open>{...formatTideStation(station), predictions: [...]}\<close>.\<close>

record 'tz station_predictions = "'tz tide_station" +
  predictions :: "prediction list"

section \<open>Fetching predictions\<close>

text \<open>
  A function that calls the network returns its outcome together with the requests it has sent,
  in the order it sent them. \<^verbatim>\<open>fetchPredictionsForTideStation(station, days = 2)\<close>: the
  station may be \<^verbatim>\<open>undefined\<close> (\<open>None\<close>), and reading its \<^verbatim>\<open>stationId\<close> then throws before
  anything is sent; \<open>days\<close> is \<open>None\<close> when the caller omits it.
\<close>

definition fetchPredictionsForTideStation ::
  "('tz, 'm) env \<Rightarrow> station option \<Rightarrow> int option \<Rightarrow> (js_error + tides_json) \<times> request list" where
  "fetchPredictionsForTideStation e st days =
     (case st of
        None \<Rightarrow> (Inl (undefined_property ''stationId''), [])
      | Some s \<Rightarrow>
          let params = \<lparr>q_station = stationId s,
                        q_begin_date = format_YYYYMMDD e (today e - 1),
                        q_range = 24 * ((case days of None \<Rightarrow> 2 | Some d \<Rightarrow> d) + 2),
                        q_product = ''predictions'',
                        q_application = appName e,
                        q_datum = ''MLLW'',
                        q_time_zone = ''lst_ldt'',
                        q_units = ''english'',
                        q_interval = ''hilo'',
                        q_format = ''json''\<rparr>
          in (fetch e params, [params]))"

definition getStationPredictions ::
  "('tz, 'm) env \<Rightarrow> station option \<Rightarrow> int option
     \<Rightarrow> (js_error + 'tz station_predictions) \<times> request list" where
  "getStationPredictions e st days =
     (case fetchPredictionsForTideStation e st days of
        (Inl err, sent) \<Rightarrow> (Inl err, sent)
      | (Inr tides, sent) \<Rightarrow>
          (case st of
             None \<Rightarrow> (Inl (undefined_property ''lat''), sent)
           | Some s \<Rightarrow>
               (case tj_predictions tides of
                  None \<Rightarrow> (Inl (undefined_property ''map''), sent)
                | Some ps \<Rightarrow>
                    (Inr (tide_station.extend (formatTideStation e s)
                            (station_predictions.fields (map (\<lambda>p. formatTidePrediction e p s) ps))),
                     sent))))"

text \<open>The assignment \<^verbatim>\<open>results[index] = v\<close> on a JavaScript array: past the end, the array
  grows and the slots in between are holes (\<open>None\<close>).\<close>

definition array_set :: "'b option list \<Rightarrow> nat \<Rightarrow> 'b \<Rightarrow> 'b option list" where
  "array_set results i v =
     (if i < length results then results[i := Some v]
      else results @ replicate (i - length results) None @ [Some v])"

text \<open>
  Modelled from the spec: \<^verbatim>\<open>asyncMap\<close> (\<^verbatim>\<open>promisify(require('async/map'))\<close>) is not in the
  repository. The specification asks of the concurrent map that results follow the input
  order, not the completion order, and that one failure fails the whole call.
  \<open>asyncMap_settle\<close> lets the started calls settle one after the other, in the order \<open>order\<close>
  (a list of indices into the input): a success is stored in the result array at the index of
  its input, and the first failure to settle is the failure of the whole.
\<close>

fun asyncMap_settle ::
  "(js_error + 'b) list \<Rightarrow> nat list \<Rightarrow> 'b option list \<Rightarrow> js_error + 'b option list" where
  "asyncMap_settle outcomes [] results = Inr results"
| "asyncMap_settle outcomes (i # order) results =
     (if i < length outcomes then
        (case outcomes ! i of
           Inl err \<Rightarrow> Inl err
         | Inr v \<Rightarrow> asyncMap_settle outcomes order (array_set results i v))
      else asyncMap_settle outcomes order results)"

text \<open>
  Modelled from the spec: the concurrent map itself (see above). Every call of the iteratee
  starts at once, in index order, so the requests leave in index order whatever happens
  later; the calls then settle in the order \<open>order\<close>.
\<close>

definition asyncMap ::
  "nat list \<Rightarrow> 'a list \<Rightarrow> ('a \<Rightarrow> (js_error + 'b) \<times> 'r list)
     \<Rightarrow> (js_error + 'b option list) \<times> 'r list" where
  "asyncMap order arr iteratee =
     (let started = map iteratee arr
      in (asyncMap_settle (map fst started) order [], concat (map snd started)))"

section \<open>The four handlers\<close>

record 'tz closest_body =
  closest_lat :: jsnum
  closest_lon :: jsnum
  closest_station :: "'tz station_predictions"

record 'tz near_body =
  near_lat :: jsnum
  near_lon :: jsnum
  near_stations :: "'tz station_predictions option list"

text \<open>The handlers return the object they pass to \<^verbatim>\<open>JSON.stringify\<close>.
  \<^verbatim>\<open>getStationsNear(lat, lon)[0]\<close> is \<^verbatim>\<open>undefined\<close> on an empty array.\<close>

definition closestHandler ::
  "('tz, 'm) env \<Rightarrow> directory \<Rightarrow> string \<Rightarrow> string
     \<Rightarrow> (js_error + 'tz closest_body) \<times> request list" where
  "closestHandler e tideStations qlat qlon =
     (case getStationsNear e tideStations qlat qlon None of
        Inl err \<Rightarrow> (Inl err, [])
      | Inr near \<Rightarrow>
          let closestStation = (case near of [] \<Rightarrow> None | s # _ \<Rightarrow> Some s) in
          (case getStationPredictions e closestStation (Some 7) of
             (Inl err, sent) \<Rightarrow> (Inl err, sent)
           | (Inr sp, sent) \<Rightarrow>
               (Inr \<lparr>closest_lat = parseFloat e qlat, closest_lon = parseFloat e qlon,
                     closest_station = sp\<rparr>, sent)))"

definition nearHandler ::
  "('tz, 'm) env \<Rightarrow> directory \<Rightarrow> nat list \<Rightarrow> string \<Rightarrow> string
     \<Rightarrow> (js_error + 'tz near_body) \<times> request list" where
  "nearHandler e tideStations order qlat qlon =
     (case getStationsNear e tideStations qlat qlon (Some 10) of
        Inl err \<Rightarrow> (Inl err, [])
      | Inr nearbyStations \<Rightarrow>
          (case asyncMap order nearbyStations (\<lambda>s. getStationPredictions e (Some s) None) of
             (Inl err, sent) \<Rightarrow> (Inl err, sent)
           | (Inr stationsWithPredictions, sent) \<Rightarrow>
               (Inr \<lparr>near_lat = parseFloat e qlat, near_lon = parseFloat e qlon,
                     near_stations = stationsWithPredictions\<rparr>, sent)))"

definition individualStationHandler ::
  "('tz, 'm) env \<Rightarrow> directory \<Rightarrow> string
     \<Rightarrow> (js_error + 'tz station_predictions) \<times> request list" where
  "individualStationHandler e tideStations sid =
     (case map_get tideStations sid of
        None \<Rightarrow> (Inl (Error ''Invalid station''), [])
      | Some s \<Rightarrow> getStationPredictions e (Some s) (Some 7))"

definition allStationsHandler :: "('tz, 'm) env \<Rightarrow> directory \<Rightarrow> 'tz tide_station list" where
  "allStationsHandler e tideStations = map (formatTideStation e) (map_values tideStations)"

text \<open>
  The end of the exported request function, once a route has matched: the calls of
  \<^verbatim>\<open>send(res, status, body)\<close> it makes, in order. After a handler has thrown, the
  \<^verbatim>\<open>catch\<close> block sends the error's message with status 404 and does not return, so the
  final \<^verbatim>\<open>send(res, 404, {message: 'Not Found'})\<close> follows; the first call is the one that
  writes the response.
\<close>

datatype 'b body = Data 'b | Message string

definition respond :: "js_error + 'b \<Rightarrow> (nat \<times> 'b body) list" where
  "respond outcome =
     (case outcome of
        Inr data \<Rightarrow> [(200, Data data)]
      | Inl err \<Rightarrow> [(404, Message (message err)), (404, Message ''Not Found'')])"

text \<open>The path pattern \<^verbatim>\<open>([.-\d]+)\<close> of a coordinate in the routes \<^verbatim>\<open>/closest/\<close> and
  \<^verbatim>\<open>/near/\<close>: one or more characters, each a dot, a hyphen or a digit.\<close>

definition is_digit :: "char \<Rightarrow> bool" where
  "is_digit c = (let n = (of_char c :: nat) in 48 \<le> n \<and> n \<le> 57)"

definition coordinate_pattern :: "string \<Rightarrow> bool" where
  "coordinate_pattern s =
     (s \<noteq> [] \<and> list_all (\<lambda>c. c = CHR ''.'' \<or> c = CHR ''-'' \<or> is_digit c) s)"

section \<open>Refreshing the directory\<close>

text \<open>
  What the directory endpoint may answer: the call or the JSON parsing rejects, or a body
  arrives whose \<^verbatim>\<open>stationList\<close> is a list of stations or is absent. \<^verbatim>\<open>fetchTideStations\<close>
  assigns \<^verbatim>\<open>tideStations\<close> in its last statement, after both \<^verbatim>\<open>await\<close>s: the function returns
  its outcome and the value of the variable afterwards.
\<close>

datatype directory_answer = Rejected js_error | Body "station list option"

definition fetchTideStations :: "directory_answer \<Rightarrow> directory \<Rightarrow> (js_error + unit) \<times> directory" where
  "fetchTideStations answer tideStations =
     (case answer of
        Rejected err \<Rightarrow> (Inl err, tideStations)
      | Body None \<Rightarrow> (Inl (undefined_property ''map''), tideStations)
      | Body (Some stationList) \<Rightarrow>
          (Inr (), new_Map (map (\<lambda>s. (stationId s, s)) stationList)))"

text \<open>
  The process as a machine over the variable \<^verbatim>\<open>tideStations\<close>: the timer runs
  \<^verbatim>\<open>fetchTideStations\<close> and drops the promise it returns; a request for \<^verbatim>\<open>/all\<close> reads the
  variable.
\<close>

datatype event = Refresh directory_answer | ListAll

fun step :: "('tz, 'm) env \<Rightarrow> directory \<Rightarrow> event \<Rightarrow> directory \<times> 'tz tide_station list option" where
  "step e tideStations (Refresh answer) = (snd (fetchTideStations answer tideStations), None)"
| "step e tideStations ListAll = (tideStations, Some (allStationsHandler e tideStations))"

fun run :: "('tz, 'm) env \<Rightarrow> directory \<Rightarrow> event list \<Rightarrow> 'tz tide_station list option list" where
  "run e tideStations [] = []"
| "run e tideStations (ev # evs) =
     (case step e tideStations ev of (tideStations', out) \<Rightarrow> out # run e tideStations' evs)"

section \<open>Vocabulary of the properties\<close>

text \<open>Two annotated stations are in order when the first one's distance is \<^verbatim>\<open><=\<close> the
  second one's, as JavaScript compares them.\<close>

definition by_distance :: "station \<Rightarrow> station \<Rightarrow> bool" where
  "by_distance a b = js_le (to_number (distance a)) (to_number (distance b))"

text \<open>A coordinate fails a range check of \<^verbatim>\<open>validateLatitudeAndLongitude\<close> when it is
  below \<open>-bound\<close> or above \<open>bound\<close>; \<open>NaN\<close> is neither, and it is not within the bounds
  either.\<close>

definition out_of_range :: "real \<Rightarrow> jsnum \<Rightarrow> bool" where
  "out_of_range bound x = (js_lt x (Fin (- bound)) \<or> js_gt x (Fin bound))"

definition in_range :: "real \<Rightarrow> jsnum \<Rightarrow> bool" where
  "in_range bound x = (js_le (Fin (- bound)) x \<and> js_le x (Fin bound))"

section \<open>An instance of the parameters\<close>

text \<open>
  The theorems below hold for every \<^typ>\<open>('tz, 'm) env\<close>. To run the service on concrete
  requests, the parameters are instantiated once, with stand-ins that can be evaluated.

  \<open>parseFloat_decimal\<close> is the built-in \<^verbatim>\<open>parseFloat\<close> on the strings a route can capture
  (dots, hyphens, digits): an optional \<open>-\<close>, digits, an optional dot and more digits; the
  longest such prefix is read, and the result is \<open>NaN\<close> when it holds no digit. The value is
  the exact decimal (no rounding to a double).
\<close>

definition digits_value :: "string \<Rightarrow> nat" where
  "digits_value ds = foldl (\<lambda>n c. 10 * n + (of_char c - 48)) 0 ds"

definition parseFloat_decimal :: "string \<Rightarrow> jsnum" where
  "parseFloat_decimal s =
     (let negative = (s \<noteq> [] \<and> hd s = CHR ''-'');
          s1 = (if negative then tl s else s);
          int_part = takeWhile is_digit s1;
          s2 = dropWhile is_digit s1;
          frac_part = (if s2 \<noteq> [] \<and> hd s2 = CHR ''.'' then takeWhile is_digit (tl s2) else []);
          magnitude = real (digits_value int_part)
                      + real (digits_value frac_part) / 10 ^ length frac_part
      in if int_part = [] \<and> frac_part = [] then NaN
         else Fin (if negative then - magnitude else magnitude))"

text \<open>A stand-in for the library distance: the sum of the differences in longitude and in
  latitude, and \<open>NaN\<close> as soon as a coordinate is not finite.\<close>

fun flat_distance :: "jsnum \<times> jsnum \<Rightarrow> jsnum \<times> jsnum \<Rightarrow> jsnum" where
  "flat_distance (Fin lon1, Fin lat1) (Fin lon2, Fin lat2) = Fin (\<bar>lon1 - lon2\<bar> + \<bar>lat1 - lat2\<bar>)"
| "flat_distance _ _ = NaN"

text \<open>
  Modelled from the spec: the title-casing of the \<^verbatim>\<open>titlecase\<close> package is not in the
  repository. The specification describes it as capitalising each word. A word starts at a
  letter or digit and runs to the next space or hyphen; its first character is put in upper
  case and nothing else changes. (The specification's minor words, which stay in lower case,
  are left out.)
\<close>

definition toUpperCase_char :: "char \<Rightarrow> char" where
  "toUpperCase_char c =
     (let n = (of_char c :: nat) in if 97 \<le> n \<and> n \<le> 122 then char_of (n - 32) else c)"

definition is_alnum :: "char \<Rightarrow> bool" where
  "is_alnum c =
     (let n = (of_char c :: nat) in (48 \<le> n \<and> n \<le> 57) \<or> (65 \<le> n \<and> n \<le> 90) \<or> (97 \<le> n \<and> n \<le> 122))"

fun capitalizeWords :: "bool \<Rightarrow> string \<Rightarrow> string" where
  "capitalizeWords in_word [] = []"
| "capitalizeWords in_word (c # cs) =
     (if in_word then c # capitalizeWords (c \<noteq> CHR '' '' \<and> c \<noteq> CHR ''-'') cs
      else if is_alnum c then toUpperCase_char c # capitalizeWords True cs
      else c # capitalizeWords False cs)"

text \<open>The upstream used by the examples answers every station with one high tide, except
  station \<open>X\<close>, whose request is rejected.\<close>

definition example_fetch :: "request \<Rightarrow> js_error + tides_json" where
  "example_fetch r =
     (if q_station r = ''X'' then Inl (FetchError ''request failed'')
      else Inr \<lparr>tj_predictions = Some [\<lparr>p_t = ''2018-02-11 04:41'', p_type = ''H'', p_v = ''3.598''\<rparr>]\<rparr>)"

definition example_env :: "(unit, string) env" where
  "example_env =
     \<lparr>parseFloat = parseFloat_decimal,
      turf_distance = flat_distance,
      geoTz = (\<lambda>_ _. ()),
      moment_tz = (\<lambda>t _. t),
      moment_format = (\<lambda>m. m),
      moment_unix = (\<lambda>_. 0),
      titleCase = capitalizeWords False,
      today = 17573,
      format_YYYYMMDD = (\<lambda>d. if d = 17572 then ''20180210'' else []),
      appName = ''tide-predictions'',
      fetch = example_fetch\<rparr>"

text \<open>The directory of the specification's end-to-end example: stations \<open>A\<close> at \<open>(0, 0)\<close>,
  \<open>B\<close> at \<open>(0, 1)\<close> and \<open>C\<close> at \<open>(10, 10)\<close>.\<close>

definition example_station :: "string \<Rightarrow> string \<Rightarrow> string \<Rightarrow> station" where
  "example_station sid la lo =
     \<lparr>stationId = sid, etidesStnName = ''LONGPORT (INSIDE), U.S. COAST'', commonName = ''LONGPORT'',
      lat = la, lon = lo, state = ''NJ'', region = ''Outer Coast'', stationType = ''R'',
      distance = None\<rparr>"

definition example_stationList :: "station list" where
  "example_stationList =
     [example_station ''A'' ''0'' ''0'', example_station ''B'' ''0'' ''1'',
      example_station ''C'' ''10'' ''10'']"

definition example_directory :: directory where
  "example_directory = snd (fetchTideStations (Body (Some example_stationList)) [])"

section \<open>The sort\<close>


lemma js_gt_sub: "js_gt (js_sub a b) (Fin 0) = js_lt b a"
  by (cases a; cases b) (simp_all add: js_gt_def)

lemma js_le_trans: "js_le a b \<Longrightarrow> js_le b c \<Longrightarrow> js_le a c"
  by (cases a; cases b; cases c) (simp_all add: js_le_def)

lemma js_le_total: "a \<noteq> NaN \<Longrightarrow> b \<noteq> NaN \<Longrightarrow> \<not> js_lt b a \<Longrightarrow> js_le a b"
  by (simp add: js_le_def)

lemma js_lt_imp_le: "js_lt a b \<Longrightarrow> js_le a b"
  by (cases a; cases b) (simp_all add: js_le_def)

lemma js_lt_neq: "js_lt a b \<Longrightarrow> a \<noteq> b"
  by (cases a; cases b) simp_all

lemma set_js_insert: "set (js_insert c x ys) = insert x (set ys)"
  by (induction ys) auto

lemma length_js_insert: "length (js_insert c x ys) = Suc (length ys)"
  by (induction ys) auto

lemma length_js_sort: "length (js_sort c xs) = length xs"
  by (induction xs) (simp_all add: js_sort_def length_js_insert)

lemma set_js_sort: "set (js_sort c xs) = set xs"
  by (induction xs) (simp_all add: js_sort_def set_js_insert)

lemma mset_js_insert: "mset (js_insert c x ys) = add_mset x (mset ys)"
  by (induction ys) auto

lemma mset_js_sort: "mset (js_sort c xs) = mset xs"
  by (induction xs) (simp_all add: js_sort_def mset_js_insert)

lemma sorted_js_insert:
  assumes "sorted_wrt by_distance ys" "to_number (distance x) \<noteq> NaN"
    "\<forall>y \<in> set ys. to_number (distance y) \<noteq> NaN"
  shows "sorted_wrt by_distance (js_insert compareDistance x ys)"
  using assms
proof (induction ys)
  case Nil
  then show ?case by simp
next
  case (Cons y ys)
  show ?case
  proof (cases "js_gt (compareDistance x y) (Fin 0)")
    case True
    then have "js_lt (to_number (distance y)) (to_number (distance x))"
      by (simp add: compareDistance_def js_gt_sub)
    then have "by_distance y x"
      by (simp add: by_distance_def js_lt_imp_le)
    with True Cons show ?thesis
      by (simp add: set_js_insert)
  next
    case False
    then have "\<not> js_lt (to_number (distance y)) (to_number (distance x))"
      by (simp add: compareDistance_def js_gt_sub)
    with Cons.prems have xy: "by_distance x y"
      by (simp add: by_distance_def js_le_total)
    have "by_distance x z" if "z \<in> set ys" for z
    proof -
      from Cons.prems(1) that have "by_distance y z" by simp
      with xy show ?thesis unfolding by_distance_def by (rule js_le_trans)
    qed
    with False xy Cons.prems(1) show ?thesis by simp
  qed
qed

lemma sorted_js_sort:
  "\<forall>x \<in> set xs. to_number (distance x) \<noteq> NaN \<Longrightarrow> sorted_wrt by_distance (js_sort compareDistance xs)"
proof (induction xs)
  case Nil
  then show ?case by (simp add: js_sort_def)
next
  case (Cons x xs)
  then have "sorted_wrt by_distance (js_sort compareDistance xs)" by simp
  moreover have "\<forall>y \<in> set (js_sort compareDistance xs). to_number (distance y) \<noteq> NaN"
    using Cons.prems by (simp add: set_js_sort)
  ultimately have "sorted_wrt by_distance (js_insert compareDistance x (js_sort compareDistance xs))"
    using Cons.prems by (intro sorted_js_insert) simp_all
  then show ?case by (simp add: js_sort_def)
qed

lemma filter_js_insert:
  "filter (\<lambda>s. distance s = d) (js_insert compareDistance x ys) =
     filter (\<lambda>s. distance s = d) (x # ys)"
proof (induction ys)
  case Nil
  then show ?case by simp
next
  case (Cons y ys)
  show ?case
  proof (cases "js_gt (compareDistance x y) (Fin 0)")
    case True
    then have "js_lt (to_number (distance y)) (to_number (distance x))"
      by (simp add: compareDistance_def js_gt_sub)
    then have "distance y \<noteq> distance x"
      using js_lt_neq by fastforce
    with True Cons show ?thesis by auto
  next
    case False
    then show ?thesis by simp
  qed
qed

lemma filter_js_sort:
  "filter (\<lambda>s. distance s = d) (js_sort compareDistance xs) = filter (\<lambda>s. distance s = d) xs"
proof (induction xs)
  case Nil
  then show ?case by (simp add: js_sort_def)
next
  case (Cons x xs)
  have "filter (\<lambda>s. distance s = d) (js_sort compareDistance (x # xs)) =
        filter (\<lambda>s. distance s = d) (x # js_sort compareDistance xs)"
    by (simp only: js_sort_def foldr.simps o_apply filter_js_insert)
  with Cons show ?case by simp
qed

section \<open>The result array of the concurrent map\<close>


lemma length_array_set: "length (array_set r i v) = max (length r) (Suc i)"
  by (auto simp: array_set_def)

lemma nth_array_set:
  "j < max (length r) (Suc i) \<Longrightarrow>
   array_set r i v ! j = (if j = i then Some v else if j < length r then r ! j else None)"
  by (auto simp: array_set_def nth_append nth_list_update)

lemma asyncMap_settle_success:
  assumes "set order \<subseteq> {..<length vs}"
  shows "\<exists>final. asyncMap_settle (map Inr vs) order res = Inr final
           \<and> length res \<le> length final
           \<and> length final \<le> max (length res) (length vs)
           \<and> (\<forall>i \<in> set order. i < length final)
           \<and> (\<forall>j < length final. final ! j =
                 (if j \<in> set order then Some (vs ! j) else if j < length res then res ! j else None))"
  using assms
proof (induction order arbitrary: res)
  case Nil
  then show ?case by simp
next
  case (Cons i order)
  let ?res = "array_set res i (vs ! i)"
  from Cons.prems have i: "i < length vs" and sub: "set order \<subseteq> {..<length vs}" by auto
  from Cons.IH [OF sub, of ?res] obtain final where
    f: "asyncMap_settle (map Inr vs) order ?res = Inr final"
    and l1: "length ?res \<le> length final"
    and l2: "length final \<le> max (length ?res) (length vs)"
    and l3: "\<forall>i \<in> set order. i < length final"
    and n: "\<forall>j < length final. final ! j =
              (if j \<in> set order then Some (vs ! j) else if j < length ?res then ?res ! j else None)"
    by blast
  have "asyncMap_settle (map Inr vs) (i # order) res = Inr final"
    using i f by simp
  moreover have "length res \<le> length final"
    using l1 by (simp add: length_array_set)
  moreover have "length final \<le> max (length res) (length vs)"
    using l2 i by (simp add: length_array_set)
  moreover have "\<forall>k \<in> set (i # order). k < length final"
    using l1 l3 by (auto simp: length_array_set)
  moreover have "\<forall>j < length final. final ! j =
      (if j \<in> set (i # order) then Some (vs ! j) else if j < length res then res ! j else None)"
  proof (intro allI impI)
    fix j assume j: "j < length final"
    show "final ! j =
      (if j \<in> set (i # order) then Some (vs ! j) else if j < length res then res ! j else None)"
    proof (cases "j \<in> set order")
      case True
      with n j show ?thesis by simp
    next
      case False
      show ?thesis
      proof (cases "j < length ?res")
        case True
        then have "?res ! j = (if j = i then Some (vs ! i) else if j < length res then res ! j else None)"
          by (simp add: length_array_set nth_array_set)
        with n j False True show ?thesis by auto
      next
        case nl: False
        then have "j \<noteq> i" "\<not> j < length res" by (auto simp: length_array_set)
        with n j False nl show ?thesis by simp
      qed
    qed
  qed
  ultimately show ?case by blast
qed

lemma asyncMap_settle_all:
  assumes "set order = {..<length vs}"
  shows "asyncMap_settle (map Inr vs) order [] = Inr (map Some vs)"
proof -
  from assms have "set order \<subseteq> {..<length vs}" by simp
  from asyncMap_settle_success [OF this, of "[]"] obtain final where
    f: "asyncMap_settle (map Inr vs) order [] = Inr final"
    and l2: "length final \<le> length vs"
    and l3: "\<forall>i \<in> set order. i < length final"
    and n: "\<forall>j < length final. final ! j = (if j \<in> set order then Some (vs ! j) else None)"
    by auto
  have len: "length final = length vs"
  proof (cases "length vs")
    case 0
    with l2 show ?thesis by simp
  next
    case (Suc k)
    with assms have "k \<in> set order" by simp
    with l3 have "k < length final" by blast
    with l2 Suc show ?thesis by simp
  qed
  have "final = map Some vs"
  proof (rule nth_equalityI)
    show "length final = length (map Some vs)" using len by simp
  next
    fix j assume "j < length final"
    with n len assms show "final ! j = map Some vs ! j" by simp
  qed
  with f show ?thesis by simp
qed

lemma asyncMap_settle_Inr_outcomes:
  "asyncMap_settle outcomes order res = Inr final \<Longrightarrow> i \<in> set order \<Longrightarrow> i < length outcomes
     \<Longrightarrow> \<exists>v. outcomes ! i = Inr v"
proof (induction order arbitrary: res)
  case Nil
  then show ?case by simp
next
  case (Cons k order)
  then show ?case
    by (cases "k < length outcomes"; cases "outcomes ! k") (auto split: if_splits)
qed

lemma asyncMap_settle_Inr:
  assumes "asyncMap_settle outcomes order [] = Inr final" "set order = {..<length outcomes}"
  shows "outcomes = map (\<lambda>r. Inr (the r)) final \<and> list_all (\<lambda>r. r \<noteq> None) final"
proof -
  have "\<forall>i < length outcomes. \<exists>v. outcomes ! i = Inr v"
    using asyncMap_settle_Inr_outcomes [OF assms(1)] assms(2) by auto
  then have "\<forall>i < length outcomes. outcomes ! i = Inr (projr (outcomes ! i))"
    by (metis sum.sel(2))
  then have o: "outcomes = map Inr (map projr outcomes)"
    by (intro nth_equalityI) simp_all
  have "set order = {..<length (map projr outcomes)}" using assms(2) by simp
  from asyncMap_settle_all [OF this] o assms(1)
  have "final = map Some (map projr outcomes)" by simp
  with o show ?thesis
    by (simp add: list_all_iff o_def)
qed

section \<open>Validation of the coordinates\<close>

lemma validate_out_of_range:
  assumes "out_of_range 90 (parseFloat e qlat) \<or> out_of_range 180 (parseFloat e qlon)"
  shows "validateLatitudeAndLongitude e qlat qlon =
           Inl (RangeError (if out_of_range 90 (parseFloat e qlat) then ''Invalid latitude''
                            else ''Invalid longitude''))"
  using assms by (auto simp: validateLatitudeAndLongitude_def out_of_range_def Let_def)

lemma validate_passes:
  "\<not> out_of_range 90 (parseFloat e qlat) \<Longrightarrow> \<not> out_of_range 180 (parseFloat e qlon)
     \<Longrightarrow> validateLatitudeAndLongitude e qlat qlon = Inr ()"
  by (auto simp: validateLatitudeAndLongitude_def out_of_range_def Let_def)

lemma in_range_not_out: "in_range b x \<Longrightarrow> \<not> out_of_range b x"
  by (cases x) (auto simp: in_range_def out_of_range_def js_le_def js_gt_def)

text \<open>
  C3. A latitude below \<open>-90\<close> or above \<open>90\<close>, or a longitude below \<open>-180\<close> or above \<open>180\<close>
  (a latitude of \<open>95\<close>, say), makes \<^verbatim>\<open>nearHandler\<close> and \<^verbatim>\<open>closestHandler\<close> throw a
  \<^verbatim>\<open>RangeError\<close>, whatever the directory and the upstream are: the handler returns the error as
  a value, no request has been sent, and the response is a 404 carrying the error's message.
\<close>

theorem out_of_range_rejected:
  assumes "out_of_range 90 (parseFloat e qlat) \<or> out_of_range 180 (parseFloat e qlon)"
  shows "\<exists>m \<in> {''Invalid latitude'', ''Invalid longitude''}.
           nearHandler e tideStations order qlat qlon = (Inl (RangeError m), [])
         \<and> closestHandler e tideStations qlat qlon = (Inl (RangeError m), [])
         \<and> respond (fst (nearHandler e tideStations order qlat qlon))
             = [(404, Message m), (404, Message ''Not Found'')]
         \<and> respond (fst (closestHandler e tideStations qlat qlon))
             = [(404, Message m), (404, Message ''Not Found'')]"
proof -
  let ?m = "if out_of_range 90 (parseFloat e qlat) then ''Invalid latitude'' else ''Invalid longitude''"
  have v: "validateLatitudeAndLongitude e qlat qlon = Inl (RangeError ?m)"
    using assms by (rule validate_out_of_range)
  have n: "nearHandler e tideStations order qlat qlon = (Inl (RangeError ?m), [])"
    by (simp add: nearHandler_def getStationsNear_def v)
  have c: "closestHandler e tideStations qlat qlon = (Inl (RangeError ?m), [])"
    by (simp add: closestHandler_def getStationsNear_def v)
  have "?m \<in> {''Invalid latitude'', ''Invalid longitude''}" by simp
  moreover have "respond (fst (nearHandler e tideStations order qlat qlon))
             = [(404, Message ?m), (404, Message ''Not Found'')]"
    by (simp only: n fst_conv respond_def sum.case message.simps)
  moreover have "respond (fst (closestHandler e tideStations qlat qlon))
             = [(404, Message ?m), (404, Message ''Not Found'')]"
    by (simp only: c fst_conv respond_def sum.case message.simps)
  ultimately show ?thesis using n c by blast
qed

lemma ex_lat95: "parseFloat example_env ''95'' = Fin 95"
  by (simp add: example_env_def parseFloat_decimal_def is_digit_def digits_value_def Let_def)

theorem out_of_range_rejected_witness:
  "out_of_range 90 (parseFloat example_env ''95'')
   \<and> nearHandler example_env example_directory [0, 1, 2] ''95'' ''0''
       = (Inl (RangeError ''Invalid latitude''), [])
   \<and> closestHandler example_env example_directory ''95'' ''0''
       = (Inl (RangeError ''Invalid latitude''), [])"
proof -
  have o: "out_of_range 90 (parseFloat example_env ''95'')"
    by (simp add: ex_lat95 out_of_range_def js_gt_def)
  then have "out_of_range 90 (parseFloat example_env ''95'') \<or> out_of_range 180 (parseFloat example_env ''0'')"
    by simp
  from out_of_range_rejected [OF this, of example_directory "[0, 1, 2]"]
  obtain m where "nearHandler example_env example_directory [0, 1, 2] ''95'' ''0'' = (Inl (RangeError m), [])"
    "closestHandler example_env example_directory ''95'' ''0'' = (Inl (RangeError m), [])"
    by blast
  moreover have "nearHandler example_env example_directory [0, 1, 2] ''95'' ''0''
       = (Inl (RangeError ''Invalid latitude''), [])"
    using o by (simp add: nearHandler_def getStationsNear_def validateLatitudeAndLongitude_def out_of_range_def Let_def)
  ultimately show ?thesis using o by simp
qed

section \<open>Requests sent by one station fetch\<close>

lemma snd_getStationPredictions:
  "snd (getStationPredictions e st days) = snd (fetchPredictionsForTideStation e st days)"
  by (cases "fetchPredictionsForTideStation e st days")
     (auto simp: getStationPredictions_def split: sum.splits option.splits)

lemma sent_getStationPredictions_Some:
  "snd (getStationPredictions e (Some s) days) =
     [\<lparr>q_station = stationId s,
       q_begin_date = format_YYYYMMDD e (today e - 1),
       q_range = 24 * ((case days of None \<Rightarrow> 2 | Some d \<Rightarrow> d) + 2),
       q_product = ''predictions'', q_application = appName e, q_datum = ''MLLW'',
       q_time_zone = ''lst_ldt'', q_units = ''english'', q_interval = ''hilo'',
       q_format = ''json''\<rparr>]"
  by (simp add: snd_getStationPredictions fetchPredictionsForTideStation_def Let_def)

lemma getStationPredictions_None:
  "getStationPredictions e None days = (Inl (undefined_property ''stationId''), [])"
  by (simp add: getStationPredictions_def fetchPredictionsForTideStation_def)

lemma getStationPredictions_Inr:
  assumes "fst (getStationPredictions e (Some s) days) = Inr r"
  shows "ts_id r = stationId s \<and> ts_distance r = distance s"
  using assms
  by (auto simp: getStationPredictions_def fetchPredictionsForTideStation_def Let_def
        formatTideStation_def tide_station.defs station_predictions.defs
      split: sum.splits option.splits)

section \<open>Station by identifier\<close>

text \<open>
  C6. When the identifier is not a key of the directory, \<^verbatim>\<open>individualStationHandler\<close> throws
  \<^verbatim>\<open>Error('Invalid station')\<close> without sending any request, and the response is a 404 whose
  body carries the message \<open>Invalid station\<close>. When the identifier is a key, the handler is
  the prediction fetch for the station stored under it, and exactly one request leaves, for
  that station.
\<close>

theorem unknown_station_rejected:
  "(map_get tideStations sid = None \<longrightarrow>
      individualStationHandler e tideStations sid = (Inl (Error ''Invalid station''), [])
      \<and> respond (fst (individualStationHandler e tideStations sid))
          = [(404, Message ''Invalid station''), (404, Message ''Not Found'')])
   \<and> (\<forall>s. map_get tideStations sid = Some s \<longrightarrow>
        individualStationHandler e tideStations sid = getStationPredictions e (Some s) (Some 7)
        \<and> map q_station (snd (individualStationHandler e tideStations sid)) = [stationId s])"
proof -
  have a: "individualStationHandler e tideStations sid = (Inl (Error ''Invalid station''), [])"
    if "map_get tideStations sid = None"
    using that by (simp add: individualStationHandler_def)
  have b: "respond (fst (individualStationHandler e tideStations sid))
          = [(404, Message ''Invalid station''), (404, Message ''Not Found'')]"
    if "map_get tideStations sid = None"
    by (simp only: a [OF that] fst_conv respond_def sum.case message.simps)
  have c: "individualStationHandler e tideStations sid = getStationPredictions e (Some s) (Some 7)"
    if "map_get tideStations sid = Some s" for s
    using that by (simp add: individualStationHandler_def)
  have d: "map q_station (snd (individualStationHandler e tideStations sid)) = [stationId s]"
    if "map_get tideStations sid = Some s" for s
    by (simp add: c [OF that] sent_getStationPredictions_Some)
  from a b c d show ?thesis by blast
qed

theorem unknown_station_rejected_witness:
  "map_get example_directory ''D'' = None
   \<and> individualStationHandler example_env example_directory ''D'' = (Inl (Error ''Invalid station''), [])
   \<and> map_get example_directory ''C'' = Some (example_station ''C'' ''10'' ''10'')
   \<and> map q_station (snd (individualStationHandler example_env example_directory ''C'')) = [''C'']"
proof -
  have d: "map_get example_directory ''D'' = None"
    by (simp add: example_directory_def fetchTideStations_def new_Map_def example_stationList_def
        example_station_def map_get_def)
  have c: "map_get example_directory ''C'' = Some (example_station ''C'' ''10'' ''10'')"
    by (simp add: example_directory_def fetchTideStations_def new_Map_def example_stationList_def
        example_station_def map_get_def)
  have i: "stationId (example_station ''C'' ''10'' ''10'') = ''C''"
    by (simp add: example_station_def)
  from unknown_station_rejected [of example_directory "''D''" example_env] d
  have "individualStationHandler example_env example_directory ''D'' = (Inl (Error ''Invalid station''), [])"
    by blast
  moreover from unknown_station_rejected [of example_directory "''C''" example_env] c
  have "map q_station (snd (individualStationHandler example_env example_directory ''C''))
          = [stationId (example_station ''C'' ''10'' ''10'')]"
    by blast
  ultimately show ?thesis using d c i by (simp only: simp_thms)
qed

section \<open>Closest station on an empty directory\<close>

text \<open>
  C2. The claim is that \<^verbatim>\<open>closestHandler\<close> on an empty directory fails with a not-found
  error. What the code does for coordinates that pass validation: the first element of the
  empty array is \<^verbatim>\<open>undefined\<close>, and reading its \<^verbatim>\<open>stationId\<close> throws a \<^verbatim>\<open>TypeError\<close>;
  nothing is sent, and the 404 response carries the engine's message for the failed property
  read. The guard of \<^verbatim>\<open>individualStationHandler\<close> (\<^verbatim>\<open>if (!station) throw ...\<close>) is missing
  here.
\<close>

theorem closest_on_empty_directory:
  assumes "\<not> out_of_range 90 (parseFloat e qlat)" "\<not> out_of_range 180 (parseFloat e qlon)"
  shows "closestHandler e [] qlat qlon = (Inl (undefined_property ''stationId''), [])
       \<and> respond (fst (closestHandler e [] qlat qlon))
           = [(404, Message (''Cannot read property '' @ [CHR 0x27] @ ''stationId'' @ [CHR 0x27] @ '' of undefined'')),
              (404, Message ''Not Found'')]"
proof -
  have v: "validateLatitudeAndLongitude e qlat qlon = Inr ()"
    using assms by (auto simp: validateLatitudeAndLongitude_def out_of_range_def Let_def)
  have c: "closestHandler e [] qlat qlon = (Inl (undefined_property ''stationId''), [])"
    by (simp add: closestHandler_def getStationsNear_def v map_values_def js_sort_def
        getStationPredictions_None)
  have "respond (fst (closestHandler e [] qlat qlon))
           = [(404, Message (''Cannot read property '' @ [CHR 0x27] @ ''stationId'' @ [CHR 0x27] @ '' of undefined'')),
              (404, Message ''Not Found'')]"
    by (simp only: c fst_conv respond_def sum.case undefined_property_def message.simps)
  with c show ?thesis by simp
qed

lemma ex_zero: "parseFloat example_env ''0'' = Fin 0"
  by (simp add: example_env_def parseFloat_decimal_def is_digit_def digits_value_def Let_def)

theorem closest_on_empty_directory_witness:
  "\<not> out_of_range 90 (parseFloat example_env ''0'') \<and> \<not> out_of_range 180 (parseFloat example_env ''0'')
   \<and> closestHandler example_env [] ''0'' ''0'' = (Inl (undefined_property ''stationId''), [])"
proof -
  have a: "\<not> out_of_range 90 (parseFloat example_env ''0'')"
    and b: "\<not> out_of_range 180 (parseFloat example_env ''0'')"
    by (simp_all add: ex_zero out_of_range_def js_gt_def)
  from closest_on_empty_directory [OF a b] a b show ?thesis by simp
qed

section \<open>Refresh\<close>

lemma failed_refresh_keeps:
  "fst (fetchTideStations answer tideStations) = Inl err \<Longrightarrow>
   snd (fetchTideStations answer tideStations) = tideStations"
  by (auto simp: fetchTideStations_def split: directory_answer.splits option.splits)

lemma run_failed_refreshes:
  assumes "\<forall>answer. Refresh answer \<in> set evs \<longrightarrow>
             (\<exists>err. fst (fetchTideStations answer tideStations) = Inl err)"
  shows "run e tideStations evs =
           map (\<lambda>ev. case ev of Refresh _ \<Rightarrow> None
                               | ListAll \<Rightarrow> Some (allStationsHandler e tideStations)) evs"
  using assms
proof (induction evs)
  case Nil
  then show ?case by simp
next
  case (Cons ev evs)
  show ?case
  proof (cases ev)
    case (Refresh answer)
    with Cons.prems obtain err where "fst (fetchTideStations answer tideStations) = Inl err"
      by auto
    then have "snd (fetchTideStations answer tideStations) = tideStations"
      by (rule failed_refresh_keeps)
    with Refresh Cons show ?thesis by simp
  next
    case ListAll
    with Cons show ?thesis by simp
  qed
qed

text \<open>
  C4. A refresh that fails leaves \<^verbatim>\<open>tideStations\<close> as it was. Hence, from any snapshot
  (in particular one loaded by an earlier successful refresh) and along any sequence of
  events whose refreshes all fail, every \<^verbatim>\<open>/all\<close> request is answered with the stations of
  that snapshot, and no event yields an error to a request.
\<close>

theorem failed_refresh_keeps_snapshot:
  assumes "\<forall>answer. Refresh answer \<in> set evs \<longrightarrow>
             (\<exists>err. fst (fetchTideStations answer tideStations) = Inl err)"
  shows "(\<forall>answer. Refresh answer \<in> set evs \<longrightarrow>
            snd (fetchTideStations answer tideStations) = tideStations)
       \<and> run e tideStations evs =
           map (\<lambda>ev. case ev of Refresh _ \<Rightarrow> None
                               | ListAll \<Rightarrow> Some (allStationsHandler e tideStations)) evs"
proof -
  have "snd (fetchTideStations answer tideStations) = tideStations"
    if "Refresh answer \<in> set evs" for answer
    using assms that failed_refresh_keeps by blast
  with run_failed_refreshes [OF assms] show ?thesis by blast
qed

theorem failed_refresh_keeps_snapshot_witness:
  "run example_env example_directory
     [ListAll, Refresh (Rejected (FetchError ''timeout'')), ListAll, Refresh (Body None), ListAll]
   = [Some (allStationsHandler example_env example_directory), None,
      Some (allStationsHandler example_env example_directory), None,
      Some (allStationsHandler example_env example_directory)]
   \<and> map ts_id (allStationsHandler example_env example_directory) = [''A'', ''B'', ''C'']"
proof -
  have "\<forall>answer. Refresh answer \<in> set [ListAll, Refresh (Rejected (FetchError ''timeout'')), ListAll, Refresh (Body None), ListAll]
          \<longrightarrow> (\<exists>err. fst (fetchTideStations answer example_directory) = Inl err)"
    by (auto simp: fetchTideStations_def)
  from failed_refresh_keeps_snapshot [OF this, of example_env]
  have "run example_env example_directory
     [ListAll, Refresh (Rejected (FetchError ''timeout'')), ListAll, Refresh (Body None), ListAll]
   = [Some (allStationsHandler example_env example_directory), None,
      Some (allStationsHandler example_env example_directory), None,
      Some (allStationsHandler example_env example_directory)]"
    by simp
  moreover have "map ts_id (allStationsHandler example_env example_directory) = [''A'', ''B'', ''C'']"
    by (simp add: allStationsHandler_def example_directory_def fetchTideStations_def new_Map_def
        example_stationList_def example_station_def map_values_def formatTideStation_def Let_def)
  ultimately show ?thesis by simp
qed

section \<open>Names\<close>










section \<open>Requests of the handlers\<close>

lemma snd_asyncMap: "snd (asyncMap order arr f) = concat (map (\<lambda>x. snd (f x)) arr)"
  by (simp add: asyncMap_def Let_def o_def)

lemma fst_asyncMap: "fst (asyncMap order arr f) = asyncMap_settle (map (\<lambda>x. fst (f x)) arr) order []"
  by (simp add: asyncMap_def Let_def o_def)

lemma snd_nearHandler:
  assumes "getStationsNear e tideStations qlat qlon (Some 10) = Inr near"
  shows "snd (nearHandler e tideStations order qlat qlon) =
           concat (map (\<lambda>s. snd (getStationPredictions e (Some s) None)) near)"
proof -
  obtain r sent where a: "asyncMap order near (\<lambda>s. getStationPredictions e (Some s) None) = (r, sent)"
    by (cases "asyncMap order near (\<lambda>s. getStationPredictions e (Some s) None)")
  then have "sent = concat (map (\<lambda>s. snd (getStationPredictions e (Some s) None)) near)"
    using snd_asyncMap [of order near "\<lambda>s. getStationPredictions e (Some s) None"] by simp
  moreover have "snd (nearHandler e tideStations order qlat qlon) = sent"
    by (cases r) (simp_all add: nearHandler_def assms a)
  ultimately show ?thesis by simp
qed

lemma fst_nearHandler:
  assumes "getStationsNear e tideStations qlat qlon (Some 10) = Inr near"
  shows "fst (nearHandler e tideStations order qlat qlon) =
           (case asyncMap_settle (map (\<lambda>s. fst (getStationPredictions e (Some s) None)) near) order [] of
              Inl err \<Rightarrow> Inl err
            | Inr sps \<Rightarrow> Inr \<lparr>near_lat = parseFloat e qlat, near_lon = parseFloat e qlon,
                              near_stations = sps\<rparr>)"
proof -
  obtain r sent where a: "asyncMap order near (\<lambda>s. getStationPredictions e (Some s) None) = (r, sent)"
    by (cases "asyncMap order near (\<lambda>s. getStationPredictions e (Some s) None)")
  then have "r = asyncMap_settle (map (\<lambda>s. fst (getStationPredictions e (Some s) None)) near) order []"
    using fst_asyncMap [of order near "\<lambda>s. getStationPredictions e (Some s) None"] by simp
  moreover have "fst (nearHandler e tideStations order qlat qlon) =
      (case r of Inl err \<Rightarrow> Inl err
            | Inr sps \<Rightarrow> Inr \<lparr>near_lat = parseFloat e qlat, near_lon = parseFloat e qlon,
                              near_stations = sps\<rparr>)"
    by (cases r) (simp_all add: nearHandler_def assms a)
  ultimately show ?thesis by simp
qed

lemma snd_closestHandler:
  assumes "getStationsNear e tideStations qlat qlon None = Inr (s # rest)"
  shows "snd (closestHandler e tideStations qlat qlon) = snd (getStationPredictions e (Some s) (Some 7))"
proof -
  obtain r sent where a: "getStationPredictions e (Some s) (Some 7) = (r :: js_error + 'a station_predictions, sent)"
    by (cases "getStationPredictions e (Some s) (Some 7) :: (js_error + 'a station_predictions) \<times> request list")
  show ?thesis
    by (cases r) (simp_all add: closestHandler_def assms a)
qed

text \<open>
  C7. Every request to the prediction endpoint starts one calendar day before today and asks
  for \<open>24 * (daySpan + 2)\<close> hours, for any \<open>daySpan\<close>. \<^verbatim>\<open>nearHandler\<close> sends one request per
  nearby station, in their order, each with a day span of 2; \<^verbatim>\<open>closestHandler\<close> and
  \<^verbatim>\<open>individualStationHandler\<close> send a single request, with a day span of 7.
\<close>

theorem prediction_window:
  "(\<exists>r. snd (fetchPredictionsForTideStation e (Some s) (Some daySpan)) = [r]
        \<and> q_station r = stationId s
        \<and> q_begin_date r = format_YYYYMMDD e (today e - 1)
        \<and> q_range r = 24 * (daySpan + 2))
   \<and> (\<forall>near. getStationsNear e tideStations qlat qlon (Some 10) = Inr near \<longrightarrow>
         map q_station (snd (nearHandler e tideStations order qlat qlon)) = map stationId near
         \<and> (\<forall>r \<in> set (snd (nearHandler e tideStations order qlat qlon)).
               q_begin_date r = format_YYYYMMDD e (today e - 1) \<and> q_range r = 24 * (2 + 2)))
   \<and> (\<forall>c rest. getStationsNear e tideStations qlat qlon None = Inr (c # rest) \<longrightarrow>
         (\<exists>r. snd (closestHandler e tideStations qlat qlon) = [r]
             \<and> q_station r = stationId c
             \<and> q_begin_date r = format_YYYYMMDD e (today e - 1)
             \<and> q_range r = 24 * (7 + 2)))
   \<and> (\<forall>c. map_get tideStations sid = Some c \<longrightarrow>
         (\<exists>r. snd (individualStationHandler e tideStations sid) = [r]
             \<and> q_station r = stationId c
             \<and> q_begin_date r = format_YYYYMMDD e (today e - 1)
             \<and> q_range r = 24 * (7 + 2)))"
proof -
  have one: "\<exists>r. snd (fetchPredictionsForTideStation e (Some s) (Some daySpan)) = [r]
        \<and> q_station r = stationId s
        \<and> q_begin_date r = format_YYYYMMDD e (today e - 1)
        \<and> q_range r = 24 * (daySpan + 2)"
    by (simp add: fetchPredictionsForTideStation_def Let_def)
  have near: "map q_station (snd (nearHandler e tideStations order qlat qlon)) = map stationId near
         \<and> (\<forall>r \<in> set (snd (nearHandler e tideStations order qlat qlon)).
               q_begin_date r = format_YYYYMMDD e (today e - 1) \<and> q_range r = 24 * (2 + 2))"
    if "getStationsNear e tideStations qlat qlon (Some 10) = Inr near" for near
  proof -
    have "snd (nearHandler e tideStations order qlat qlon) =
           concat (map (\<lambda>s. snd (getStationPredictions e (Some s) None :: (js_error + 'a station_predictions) \<times> request list)) near)"
      using that by (rule snd_nearHandler)
    then show ?thesis
      by (simp add: sent_getStationPredictions_Some o_def map_concat)
  qed
  have closest: "\<exists>r. snd (closestHandler e tideStations qlat qlon) = [r]
             \<and> q_station r = stationId c
             \<and> q_begin_date r = format_YYYYMMDD e (today e - 1)
             \<and> q_range r = 24 * (7 + 2)"
    if "getStationsNear e tideStations qlat qlon None = Inr (c # rest)" for c rest
    by (simp add: snd_closestHandler [OF that] sent_getStationPredictions_Some)
  have byid: "\<exists>r. snd (individualStationHandler e tideStations sid) = [r]
             \<and> q_station r = stationId c
             \<and> q_begin_date r = format_YYYYMMDD e (today e - 1)
             \<and> q_range r = 24 * (7 + 2)"
    if "map_get tideStations sid = Some c" for c
    using that by (simp add: individualStationHandler_def sent_getStationPredictions_Some)
  from one near closest byid show ?thesis by blast
qed


section \<open>The example directory\<close>

lemma ex_directory:
  "example_directory = [(''A'', example_station ''A'' ''0'' ''0''), (''B'', example_station ''B'' ''0'' ''1''),
      (''C'', example_station ''C'' ''10'' ''10'')]"
  by (simp add: example_directory_def fetchTideStations_def new_Map_def example_stationList_def
        example_station_def)

lemma ex_parse:
  "parseFloat example_env ''0'' = Fin 0" "parseFloat example_env ''1'' = Fin 1"
  "parseFloat example_env ''10'' = Fin 10" "parseFloat example_env ''95'' = Fin 95"
  "parseFloat example_env ''.-'' = NaN"
  by (simp_all add: example_env_def parseFloat_decimal_def is_digit_def digits_value_def Let_def)

lemma ex_validate: "validateLatitudeAndLongitude example_env ''0'' ''0'' = Inr ()"
  by (simp add: validateLatitudeAndLongitude_def ex_parse js_gt_def)

lemma ex_withDistance:
  "withDistance example_env ''0'' ''0'' (example_station sid la lo)
     = (example_station sid la lo)\<lparr>distance := Some (flat_distance (Fin 0, Fin 0) (parseFloat_decimal lo, parseFloat_decimal la))\<rparr>"
  by (simp add: withDistance_def calculateDistance_def ex_parse example_station_def)
     (simp add: example_env_def)

lemma ex_pd: "parseFloat_decimal ''0'' = Fin 0" "parseFloat_decimal ''1'' = Fin 1"
  "parseFloat_decimal ''10'' = Fin 10"
  by (simp_all add: parseFloat_decimal_def is_digit_def digits_value_def Let_def)

lemma ex_annotated:
  "map (withDistance example_env ''0'' ''0'') (map_values example_directory) =
       [(example_station ''A'' ''0'' ''0'')\<lparr>distance := Some (Fin 0)\<rparr>,
        (example_station ''B'' ''0'' ''1'')\<lparr>distance := Some (Fin 1)\<rparr>,
        (example_station ''C'' ''10'' ''10'')\<lparr>distance := Some (Fin 20)\<rparr>]"
  by (simp add: ex_directory map_values_def ex_withDistance ex_pd)

lemma ex_sorted:
  "js_sort compareDistance
       [(example_station ''A'' ''0'' ''0'')\<lparr>distance := Some (Fin 0)\<rparr>,
        (example_station ''B'' ''0'' ''1'')\<lparr>distance := Some (Fin 1)\<rparr>,
        (example_station ''C'' ''10'' ''10'')\<lparr>distance := Some (Fin 20)\<rparr>] =
       [(example_station ''A'' ''0'' ''0'')\<lparr>distance := Some (Fin 0)\<rparr>,
        (example_station ''B'' ''0'' ''1'')\<lparr>distance := Some (Fin 1)\<rparr>,
        (example_station ''C'' ''10'' ''10'')\<lparr>distance := Some (Fin 20)\<rparr>]"
  by (simp add: js_sort_def compareDistance_def to_number_def js_gt_def)

lemma ex_near:
  "getStationsNear example_env example_directory ''0'' ''0'' limit =
     Inr (take (case limit of None \<Rightarrow> 10 | Some n \<Rightarrow> n)
       [(example_station ''A'' ''0'' ''0'')\<lparr>distance := Some (Fin 0)\<rparr>,
        (example_station ''B'' ''0'' ''1'')\<lparr>distance := Some (Fin 1)\<rparr>,
        (example_station ''C'' ''10'' ''10'')\<lparr>distance := Some (Fin 20)\<rparr>])"
  by (simp add: getStationsNear_def ex_validate ex_annotated ex_sorted)

theorem prediction_window_witness:
  "map q_range (snd (nearHandler example_env example_directory [2, 0, 1] ''0'' ''0'')) = [96, 96, 96]
   \<and> map q_range (snd (closestHandler example_env example_directory ''0'' ''0'')) = [216]
   \<and> map q_range (snd (individualStationHandler example_env example_directory ''C'')) = [216]
   \<and> map q_begin_date (snd (individualStationHandler example_env example_directory ''C'')) = [''20180210'']"
proof -
  let ?A = "(example_station ''A'' ''0'' ''0'')\<lparr>distance := Some (Fin 0)\<rparr>"
  let ?B = "(example_station ''B'' ''0'' ''1'')\<lparr>distance := Some (Fin 1)\<rparr>"
  let ?C = "(example_station ''C'' ''10'' ''10'')\<lparr>distance := Some (Fin 20)\<rparr>"
  have n: "getStationsNear example_env example_directory ''0'' ''0'' (Some 10) = Inr [?A, ?B, ?C]"
    by (simp add: ex_near)
  have c: "getStationsNear example_env example_directory ''0'' ''0'' None = Inr (?A # [?B, ?C])"
    by (simp add: ex_near)
  have g: "map_get example_directory ''C'' = Some (example_station ''C'' ''10'' ''10'')"
    by (simp add: ex_directory map_get_def)
  have d: "format_YYYYMMDD example_env (today example_env - 1) = ''20180210''"
    by (simp add: example_env_def)
  note w = prediction_window [of example_env "example_station ''C'' ''10'' ''10''" 7
      example_directory "''0''" "''0''" "[2, 0, 1]" "''C''"]
  from w n have "\<forall>r \<in> set (snd (nearHandler example_env example_directory [2, 0, 1] ''0'' ''0'')). q_range r = 24 * (2 + 2)"
    by blast
  moreover from w n have "map q_station (snd (nearHandler example_env example_directory [2, 0, 1] ''0'' ''0'')) = map stationId [?A, ?B, ?C]"
    by blast
  then have "length (snd (nearHandler example_env example_directory [2, 0, 1] ''0'' ''0'')) = 3"
    by (metis length_map length_Cons list.size(3) numeral_3_eq_3)
  ultimately have 1: "map q_range (snd (nearHandler example_env example_directory [2, 0, 1] ''0'' ''0'')) = [96, 96, 96]"
    by (cases "snd (nearHandler example_env example_directory [2, 0, 1] ''0'' ''0'')" rule: list.exhaust)
       (auto simp: length_Suc_conv numeral_3_eq_3)
  from w c obtain r where "snd (closestHandler example_env example_directory ''0'' ''0'') = [r]" "q_range r = 24 * (7 + 2)"
    by blast
  then have 2: "map q_range (snd (closestHandler example_env example_directory ''0'' ''0'')) = [216]"
    by simp
  from w g obtain r' where "snd (individualStationHandler example_env example_directory ''C'') = [r']"
    "q_range r' = 24 * (7 + 2)" "q_begin_date r' = format_YYYYMMDD example_env (today example_env - 1)"
    by blast
  with d have 3: "map q_range (snd (individualStationHandler example_env example_directory ''C'')) = [216]
   \<and> map q_begin_date (snd (individualStationHandler example_env example_directory ''C'')) = [''20180210'']"
    by simp
  from 1 2 3 show ?thesis by blast
qed

section \<open>Nearest stations\<close>

lemma getStationsNear_passes:
  assumes "\<not> out_of_range 90 (parseFloat e qlat)" "\<not> out_of_range 180 (parseFloat e qlon)"
  shows "getStationsNear e tideStations qlat qlon limit =
           Inr (take (case limit of None \<Rightarrow> 10 | Some n \<Rightarrow> n)
                  (js_sort compareDistance (map (withDistance e qlat qlon) (map_values tideStations))))"
  using validate_passes [OF assms] by (simp add: getStationsNear_def)

lemma distance_withDistance:
  "distance (withDistance e qlat qlon s) = Some (calculateDistance e (qlat, qlon) (lat s, lon s))"
  by (simp add: withDistance_def)

lemma nearHandler_body:
  assumes near: "getStationsNear e tideStations qlat qlon (Some 10) = Inr near"
    and order: "mset order = mset [0..<length near]"
    and body: "fst (nearHandler e tideStations order qlat qlon) = Inr body"
  shows "map (map_option ts_id) (near_stations body) = map (\<lambda>s. Some (stationId s)) near
       \<and> map (map_option ts_distance) (near_stations body) = map (\<lambda>s. Some (distance s)) near"
proof -
  let ?outcomes = "map (\<lambda>s. fst (getStationPredictions e (Some s) None)) near"
  from body obtain sps where
    settle: "asyncMap_settle ?outcomes order [] = Inr sps" and sps: "near_stations body = sps"
    by (auto simp: fst_nearHandler [OF near] split: sum.splits)
  from order have "set order = {..<length ?outcomes}"
    by (metis mset_eq_setD set_upt atLeast_upt length_map)
  from asyncMap_settle_Inr [OF settle this]
  have o: "?outcomes = map (\<lambda>r. Inr (the r)) sps" and some: "list_all (\<lambda>r. r \<noteq> None) sps"
    by simp_all
  from o have len: "length sps = length near"
    by (metis length_map)
  have each: "ts_id (the (sps ! i)) = stationId (near ! i) \<and> ts_distance (the (sps ! i)) = distance (near ! i)"
    if "i < length near" for i
  proof -
    from o that len have "fst (getStationPredictions e (Some (near ! i)) None) = Inr (the (sps ! i))"
      by (metis (no_types, lifting) length_map nth_map)
    then show ?thesis by (rule getStationPredictions_Inr)
  qed
  have nn: "sps ! i \<noteq> None" if "i < length near" for i
    using some that len by (simp add: list_all_length)
  have "map (map_option ts_id) sps = map (\<lambda>s. Some (stationId s)) near"
  proof (rule nth_equalityI)
    show "length (map (map_option ts_id) sps) = length (map (\<lambda>s. Some (stationId s)) near)"
      using len by simp
  next
    fix i assume "i < length (map (map_option ts_id) sps)"
    then have i: "i < length near" using len by simp
    with nn [OF i] each [OF i] len
    show "map (map_option ts_id) sps ! i = map (\<lambda>s. Some (stationId s)) near ! i"
      by (cases "sps ! i") simp_all
  qed
  moreover have "map (map_option ts_distance) sps = map (\<lambda>s. Some (distance s)) near"
  proof (rule nth_equalityI)
    show "length (map (map_option ts_distance) sps) = length (map (\<lambda>s. Some (distance s)) near)"
      using len by simp
  next
    fix i assume "i < length (map (map_option ts_distance) sps)"
    then have i: "i < length near" using len by simp
    with nn [OF i] each [OF i] len
    show "map (map_option ts_distance) sps ! i = map (\<lambda>s. Some (distance s)) near ! i"
      by (cases "sps ! i") simp_all
  qed
  ultimately show ?thesis using sps by simp
qed


text \<open>
  C1. For coordinates within the bounds and a directory none of whose stations gets \<open>NaN\<close>
  as its distance, \<^verbatim>\<open>getStationsNear\<close> with limit 10 returns \<open>min 10 n\<close> stations out of the
  \<open>n\<close> of the directory. They are the head of a rearrangement of all the stations, each
  carrying its distance from the query point, in which distances never decrease; and among the
  stations at one distance, the returned ones are the first ones of the directory, in
  directory order. When \<^verbatim>\<open>nearHandler\<close> answers, whatever the order in which the fetches
  settle, the stations of its answer are these, index by index, with these distances.
\<close>

theorem nearest_stations_sorted:
  assumes lat: "in_range 90 (parseFloat e qlat)" and lon: "in_range 180 (parseFloat e qlon)"
    and numeric: "\<forall>s \<in> set (map_values tideStations).
                    calculateDistance e (qlat, qlon) (lat s, lon s) \<noteq> NaN"
  shows "\<exists>near rest.
           getStationsNear e tideStations qlat qlon (Some 10) = Inr near
         \<and> length near = min 10 (length tideStations)
         \<and> sorted_wrt by_distance (near @ rest)
         \<and> mset (near @ rest) = mset (map (withDistance e qlat qlon) (map_values tideStations))
         \<and> (\<forall>d. prefix (filter (\<lambda>s. distance s = d) near)
                   (filter (\<lambda>s. distance s = d)
                      (map (withDistance e qlat qlon) (map_values tideStations))))
         \<and> (\<forall>order body. mset order = mset [0..<length near]
               \<and> fst (nearHandler e tideStations order qlat qlon) = Inr body \<longrightarrow>
                 map (map_option ts_id) (near_stations body) = map (\<lambda>s. Some (stationId s)) near
               \<and> map (map_option ts_distance) (near_stations body) = map (\<lambda>s. Some (distance s)) near)"
proof -
  let ?annotated = "map (withDistance e qlat qlon) (map_values tideStations)"
  let ?sorted = "js_sort compareDistance ?annotated"
  let ?near = "take 10 ?sorted" and ?rest = "drop 10 ?sorted"
  have near: "getStationsNear e tideStations qlat qlon (Some 10) = Inr ?near"
    using getStationsNear_passes [OF in_range_not_out [OF lat] in_range_not_out [OF lon]]
    by simp
  have len: "length ?near = min 10 (length tideStations)"
    by (simp add: length_js_sort map_values_def min.commute)
  have "\<forall>x \<in> set ?annotated. to_number (distance x) \<noteq> NaN"
    using numeric by (auto simp: distance_withDistance to_number_def)
  then have sorted: "sorted_wrt by_distance (?near @ ?rest)"
    by (simp add: sorted_js_sort)
  have perm: "mset (?near @ ?rest) = mset ?annotated"
    by (simp add: mset_js_sort)
  have stable: "prefix (filter (\<lambda>s. distance s = d) ?near) (filter (\<lambda>s. distance s = d) ?annotated)" for d
  proof -
    have "prefix (filter (\<lambda>s. distance s = d) ?near) (filter (\<lambda>s. distance s = d) ?sorted)"
      by (intro filter_mono_prefix take_is_prefix)
    then show ?thesis by (simp add: filter_js_sort)
  qed
  have handler: "map (map_option ts_id) (near_stations body) = map (\<lambda>s. Some (stationId s)) ?near
               \<and> map (map_option ts_distance) (near_stations body) = map (\<lambda>s. Some (distance s)) ?near"
    if "mset order = mset [0..<length ?near]"
       "fst (nearHandler e tideStations order qlat qlon) = Inr body" for order body
    using near that by (rule nearHandler_body)
  from near len sorted perm stable handler show ?thesis by blast
qed

lemma ex_getStationPredictions:
  "q \<noteq> ''X'' \<Longrightarrow> \<exists>r. fst (getStationPredictions example_env (Some ((example_station q la lo)\<lparr>distance := d\<rparr>)) days) = Inr r"
  by (simp add: getStationPredictions_def fetchPredictionsForTideStation_def Let_def
      example_station_def) (simp add: example_env_def example_fetch_def)

theorem nearest_stations_sorted_witness:
  "in_range 90 (parseFloat example_env ''0'') \<and> in_range 180 (parseFloat example_env ''0'')
   \<and> map (\<lambda>s. calculateDistance example_env (''0'', ''0'') (lat s, lon s))
         (map_values example_directory) = [Fin 0, Fin 1, Fin 20]
   \<and> (\<exists>body. fst (nearHandler example_env example_directory [2, 0, 1] ''0'' ''0'') = Inr body
         \<and> map (map_option ts_id) (near_stations body) = [Some ''A'', Some ''B'', Some ''C'']
         \<and> map (map_option ts_distance) (near_stations body)
             = [Some (Some (Fin 0)), Some (Some (Fin 1)), Some (Some (Fin 20))])"
proof -
  let ?A = "(example_station ''A'' ''0'' ''0'')\<lparr>distance := Some (Fin 0)\<rparr>"
  let ?B = "(example_station ''B'' ''0'' ''1'')\<lparr>distance := Some (Fin 1)\<rparr>"
  let ?C = "(example_station ''C'' ''10'' ''10'')\<lparr>distance := Some (Fin 20)\<rparr>"
  have a: "in_range 90 (parseFloat example_env ''0'')"
    and b: "in_range 180 (parseFloat example_env ''0'')"
    by (simp_all add: ex_parse in_range_def js_le_def)
  have c': "map (\<lambda>s. calculateDistance example_env (''0'', ''0'') (lat s, lon s))
         (map_values example_directory) = [Fin 0, Fin 1, Fin 20]"
    by (simp add: ex_directory map_values_def calculateDistance_def ex_parse example_station_def)
       (simp add: example_env_def)
  have c: "\<forall>s \<in> set (map_values example_directory).
         calculateDistance example_env (''0'', ''0'') (lat s, lon s) \<noteq> NaN"
    by (simp add: ex_directory map_values_def calculateDistance_def ex_parse example_station_def)
       (simp add: example_env_def)
  have n: "getStationsNear example_env example_directory ''0'' ''0'' (Some 10) = Inr [?A, ?B, ?C]"
    by (simp add: ex_near)
  have f: "fetch example_env = example_fetch"
    by (simp add: example_env_def)
  have "\<exists>body. fst (nearHandler example_env example_directory [2, 0, 1] ''0'' ''0'') = Inr body"
    by (simp add: fst_nearHandler [OF n] getStationPredictions_def fetchPredictionsForTideStation_def
        Let_def example_station_def f example_fetch_def array_set_def)
  then obtain body where body: "fst (nearHandler example_env example_directory [2, 0, 1] ''0'' ''0'') = Inr body" ..
  from nearest_stations_sorted [OF a b c] obtain near where
    g: "getStationsNear example_env example_directory ''0'' ''0'' (Some 10) = Inr near" and
    h: "\<forall>order body. mset order = mset [0..<length near]
               \<and> fst (nearHandler example_env example_directory order ''0'' ''0'') = Inr body \<longrightarrow>
                 map (map_option ts_id) (near_stations body) = map (\<lambda>s. Some (stationId s)) near
               \<and> map (map_option ts_distance) (near_stations body) = map (\<lambda>s. Some (distance s)) near"
    by blast
  from g n have near: "near = [?A, ?B, ?C]" by simp
  have "mset [2, 0, 1] = mset [0..<length near]"
    by (simp add: near upt_rec)
  with h body have "map (map_option ts_id) (near_stations body) = map (\<lambda>s. Some (stationId s)) near
               \<and> map (map_option ts_distance) (near_stations body) = map (\<lambda>s. Some (distance s)) near"
    by blast
  then have "map (map_option ts_id) (near_stations body) = [Some ''A'', Some ''B'', Some ''C'']
         \<and> map (map_option ts_distance) (near_stations body)
             = [Some (Some (Fin 0)), Some (Some (Fin 1)), Some (Some (Fin 20))]"
    by (simp add: near example_station_def)
  with body have "\<exists>body. fst (nearHandler example_env example_directory [2, 0, 1] ''0'' ''0'') = Inr body
         \<and> map (map_option ts_id) (near_stations body) = [Some ''A'', Some ''B'', Some ''C'']
         \<and> map (map_option ts_distance) (near_stations body)
             = [Some (Some (Fin 0)), Some (Some (Fin 1)), Some (Some (Fin 20))]"
    by (intro exI [of _ body]) (rule conjI)
  then show ?thesis by (rule conjI [OF a conjI [OF b conjI [OF c']]])
qed

section \<open>Order of the concurrent results\<close>

text \<open>
  C5. Let \<open>near\<close> be the nearest-first stations that \<^verbatim>\<open>getStationsNear\<close> hands to the
  concurrent map, and let the fetches settle in any order (\<open>order\<close> is any arrangement of
  the indices). If every fetch succeeds, \<^verbatim>\<open>nearHandler\<close> answers, and entry \<open>i\<close> of the
  answer's stations is the outcome of the fetch for \<open>near ! i\<close>, for every index \<open>i\<close>.
\<close>

theorem near_results_follow_candidates:
  assumes near: "getStationsNear e tideStations qlat qlon (Some 10) = Inr near"
    and order: "mset order = mset [0..<length near]"
    and ok: "\<forall>s \<in> set near. \<exists>r. fst (getStationPredictions e (Some s) None) = Inr r"
  shows "\<exists>body. fst (nearHandler e tideStations order qlat qlon) = Inr body
           \<and> length (near_stations body) = length near
           \<and> (\<forall>i < length near. \<exists>r. near_stations body ! i = Some r
                  \<and> fst (getStationPredictions e (Some (near ! i)) None) = Inr r)"
proof -
  let ?outcomes = "map (\<lambda>s. fst (getStationPredictions e (Some s) None)) near"
  let ?vs = "map projr ?outcomes"
  have "?outcomes ! i = Inr (?vs ! i)" if "i < length near" for i
  proof -
    from ok that obtain r where "fst (getStationPredictions e (Some (near ! i)) None) = Inr r"
      by (meson nth_mem)
    with that show ?thesis by simp
  qed
  then have o: "?outcomes = map Inr ?vs"
    by (intro nth_equalityI) simp_all
  from order have "set order = {..<length ?vs}"
    by (metis mset_eq_setD set_upt atLeast_upt length_map)
  from asyncMap_settle_all [OF this]
  have "asyncMap_settle (map Inr ?vs) order [] = Inr (map Some ?vs)" .
  then have "asyncMap_settle ?outcomes order [] = Inr (map Some ?vs)"
    by (simp only: o [symmetric])
  then have body: "fst (nearHandler e tideStations order qlat qlon) =
      Inr \<lparr>near_lat = parseFloat e qlat, near_lon = parseFloat e qlon, near_stations = map Some ?vs\<rparr>"
    by (simp add: fst_nearHandler [OF near])
  have "\<exists>r. map Some ?vs ! i = Some r \<and> fst (getStationPredictions e (Some (near ! i)) None) = Inr r"
    if "i < length near" for i
  proof -
    from ok that obtain r where "fst (getStationPredictions e (Some (near ! i)) None) = Inr r"
      by (meson nth_mem)
    with that show ?thesis by simp
  qed
  with body show ?thesis by simp
qed


theorem near_results_follow_candidates_witness:
  "getStationsNear example_env example_directory ''0'' ''0'' (Some 10) =
     Inr [(example_station ''A'' ''0'' ''0'')\<lparr>distance := Some (Fin 0)\<rparr>,
          (example_station ''B'' ''0'' ''1'')\<lparr>distance := Some (Fin 1)\<rparr>,
          (example_station ''C'' ''10'' ''10'')\<lparr>distance := Some (Fin 20)\<rparr>]
   \<and> mset [2, 0, 1] = mset [0..<3]
   \<and> (\<exists>body. fst (nearHandler example_env example_directory [2, 0, 1] ''0'' ''0'') = Inr body
         \<and> length (near_stations body) = 3
         \<and> (\<exists>r. near_stations body ! 2 = Some r
               \<and> fst (getStationPredictions example_env
                        (Some ((example_station ''C'' ''10'' ''10'')\<lparr>distance := Some (Fin 20)\<rparr>)) None) = Inr r))"
proof -
  let ?A = "(example_station ''A'' ''0'' ''0'')\<lparr>distance := Some (Fin 0)\<rparr>"
  let ?B = "(example_station ''B'' ''0'' ''1'')\<lparr>distance := Some (Fin 1)\<rparr>"
  let ?C = "(example_station ''C'' ''10'' ''10'')\<lparr>distance := Some (Fin 20)\<rparr>"
  have n: "getStationsNear example_env example_directory ''0'' ''0'' (Some 10) = Inr [?A, ?B, ?C]"
    by (simp add: ex_near)
  have m: "mset [2, 0, 1] = mset [0..<3]"
    by (simp add: upt_rec)
  have m': "mset [2, 0, 1] = mset [0..<length [?A, ?B, ?C]]"
    by (simp add: upt_rec)
  have ok: "\<forall>s \<in> set [?A, ?B, ?C]. \<exists>r. fst (getStationPredictions example_env (Some s) None) = Inr r"
    using ex_getStationPredictions by simp
  from near_results_follow_candidates [OF n m' ok] obtain body where
    b: "fst (nearHandler example_env example_directory [2, 0, 1] ''0'' ''0'') = Inr body"
    and l: "length (near_stations body) = length [?A, ?B, ?C]"
    and i: "\<forall>i < length [?A, ?B, ?C]. \<exists>r. near_stations body ! i = Some r
                  \<and> fst (getStationPredictions example_env (Some ([?A, ?B, ?C] ! i)) None) = Inr r"
    by blast
  have "(2 :: nat) < length [?A, ?B, ?C]" by simp
  with i have "\<exists>r. near_stations body ! 2 = Some r
                  \<and> fst (getStationPredictions example_env (Some ([?A, ?B, ?C] ! 2)) None) = Inr r"
    by blast
  then have "\<exists>r. near_stations body ! 2 = Some r
                  \<and> fst (getStationPredictions example_env (Some ?C) None) = Inr r"
    by simp
  with b l have "\<exists>body. fst (nearHandler example_env example_directory [2, 0, 1] ''0'' ''0'') = Inr body
         \<and> length (near_stations body) = 3
         \<and> (\<exists>r. near_stations body ! 2 = Some r
               \<and> fst (getStationPredictions example_env (Some ?C) None) = Inr r)"
    by (intro exI [of _ body]) simp
  then show ?thesis by (rule conjI [OF n conjI [OF m]])
qed

section \<open>Coordinates that do not parse\<close>

lemma nan_not_out_of_range: "\<not> out_of_range b NaN"
  by (simp add: out_of_range_def js_gt_def)

text \<open>
  C10. A coordinate that parses to \<open>NaN\<close> (the string \<open>.-\<close> does, and the route accepts it)
  passes its range check. So when one coordinate is \<open>NaN\<close> and the other one is \<open>NaN\<close> too
  or within its bounds, validation returns normally and \<^verbatim>\<open>getStationsNear\<close> goes on to
  compute the distances; with a distance library that returns \<open>NaN\<close> for a point with a
  \<open>NaN\<close> coordinate, every station it returns carries the distance \<open>NaN\<close>.
\<close>

theorem unparsable_coordinates_pass:
  assumes nan: "parseFloat e qlat = NaN \<or> parseFloat e qlon = NaN"
    and lat: "parseFloat e qlat = NaN \<or> in_range 90 (parseFloat e qlat)"
    and lon: "parseFloat e qlon = NaN \<or> in_range 180 (parseFloat e qlon)"
    and library: "\<forall>p q. fst p = NaN \<or> snd p = NaN \<longrightarrow> turf_distance e p q = NaN"
  shows "validateLatitudeAndLongitude e qlat qlon = Inr ()
       \<and> (\<exists>near. getStationsNear e tideStations qlat qlon (Some 10) = Inr near
             \<and> length near = min 10 (length tideStations)
             \<and> (\<forall>s \<in> set near. distance s = Some NaN))"
proof -
  from lat have a: "\<not> out_of_range 90 (parseFloat e qlat)"
    using nan_not_out_of_range in_range_not_out by metis
  from lon have b: "\<not> out_of_range 180 (parseFloat e qlon)"
    using nan_not_out_of_range in_range_not_out by metis
  let ?near = "take 10 (js_sort compareDistance (map (withDistance e qlat qlon) (map_values tideStations)))"
  have v: "validateLatitudeAndLongitude e qlat qlon = Inr ()"
    using a b by (rule validate_passes)
  have n: "getStationsNear e tideStations qlat qlon (Some 10) = Inr ?near"
    using getStationsNear_passes [OF a b] by simp
  have l: "length ?near = min 10 (length tideStations)"
    by (simp add: length_js_sort map_values_def min.commute)
  have "calculateDistance e (qlat, qlon) p = NaN" for p
    using nan library by (cases p) (auto simp: calculateDistance_def Let_def)
  then have "\<forall>s \<in> set (map (withDistance e qlat qlon) (map_values tideStations)). distance s = Some NaN"
    by (simp add: distance_withDistance)
  then have d: "\<forall>s \<in> set ?near. distance s = Some NaN"
    by (metis in_set_takeD set_js_sort)
  from v n l d show ?thesis by blast
qed

theorem unparsable_coordinates_pass_witness:
  "coordinate_pattern ''.-'' \<and> parseFloat example_env ''.-'' = NaN
   \<and> in_range 180 (parseFloat example_env ''0'')
   \<and> turf_distance example_env (Fin 0, NaN) (Fin 10, Fin 10) = NaN
   \<and> validateLatitudeAndLongitude example_env ''.-'' ''0'' = Inr ()
   \<and> (\<exists>near. getStationsNear example_env example_directory ''.-'' ''0'' (Some 10) = Inr near
         \<and> length near = 3 \<and> (\<forall>s \<in> set near. distance s = Some NaN))"
proof -
  have p: "coordinate_pattern ''.-''"
    by (simp add: coordinate_pattern_def is_digit_def)
  have a: "parseFloat example_env ''.-'' = NaN"
    by (simp add: ex_parse)
  have b: "in_range 180 (parseFloat example_env ''0'')"
    by (simp add: ex_parse in_range_def js_le_def)
  have c: "\<forall>p q. fst p = NaN \<or> snd p = NaN \<longrightarrow> turf_distance example_env p q = NaN"
    by (auto simp: example_env_def)
  have c': "turf_distance example_env (Fin 0, NaN) (Fin 10, Fin 10) = NaN"
    by (simp add: example_env_def)
  have l: "length example_directory = 3"
    by (simp add: ex_directory)
  from unparsable_coordinates_pass [of example_env "''.-''" "''0''" example_directory] a b c l
  have "validateLatitudeAndLongitude example_env ''.-'' ''0'' = Inr ()
   \<and> (\<exists>near. getStationsNear example_env example_directory ''.-'' ''0'' (Some 10) = Inr near
         \<and> length near = 3 \<and> (\<forall>s \<in> set near. distance s = Some NaN))"
    by simp
  then show ?thesis by (rule conjI [OF p conjI [OF a conjI [OF b conjI [OF c']]]])
qed

end
